theory Spec2Isabelle
  imports Complex_Main
begin

section \<open>JavaScript numbers\<close>

text \<open>
  Every quantity of \<^verbatim>\<open>AnimatedPhotoView.tsx\<close> is a JavaScript \<^verbatim>\<open>number\<close>, a binary64
  floating-point value. The layout code divides by the viewport width, so what a
  division by zero yields matters: JavaScript does not raise, it returns \<^verbatim>\<open>Infinity\<close>,
  \<^verbatim>\<open>-Infinity\<close> or \<^verbatim>\<open>NaN\<close>, and \<^verbatim>\<open>NaN\<close> then fails every comparison. A number is
  modelled as a rational or one of these three values. The operators \<open>js_div\<close>,
  \<open>js_mul\<close> and \<open>js_sub\<close> below give the exact result of one operation; \<open>double\<close>
  rounds a result to the nearest binary64 value, and \<open>fdiv\<close>, \<open>fmul\<close>, \<open>fsub\<close> are the
  operators followed by that rounding, which is what a chain of operations computes.
  The sign of zero is not modelled (every divisor of the program is a non-negative
  size).
\<close>

datatype jsnum = Fin rat | PosInf | NegInf | NaN

text \<open>The operator \<^verbatim>\<open>/\<close>.\<close>

fun js_div :: "jsnum \<Rightarrow> jsnum \<Rightarrow> jsnum" where
  "js_div (Fin a) (Fin b) =
     (if b = 0 then (if a = 0 then NaN else if 0 < a then PosInf else NegInf)
      else Fin (a / b))"
| "js_div (Fin a) PosInf = Fin 0"
| "js_div (Fin a) NegInf = Fin 0"
| "js_div PosInf (Fin b) = (if 0 \<le> b then PosInf else NegInf)"
| "js_div NegInf (Fin b) = (if 0 \<le> b then NegInf else PosInf)"
| "js_div _ _ = NaN"

text \<open>The operator \<^verbatim>\<open>*\<close>.\<close>

fun js_mul :: "jsnum \<Rightarrow> jsnum \<Rightarrow> jsnum" where
  "js_mul (Fin a) (Fin b) = Fin (a * b)"
| "js_mul (Fin a) PosInf = (if a = 0 then NaN else if 0 < a then PosInf else NegInf)"
| "js_mul (Fin a) NegInf = (if a = 0 then NaN else if 0 < a then NegInf else PosInf)"
| "js_mul PosInf (Fin b) = (if b = 0 then NaN else if 0 < b then PosInf else NegInf)"
| "js_mul NegInf (Fin b) = (if b = 0 then NaN else if 0 < b then NegInf else PosInf)"
| "js_mul PosInf PosInf = PosInf"
| "js_mul NegInf NegInf = PosInf"
| "js_mul PosInf NegInf = NegInf"
| "js_mul NegInf PosInf = NegInf"
| "js_mul _ _ = NaN"

text \<open>The binary operator \<^verbatim>\<open>-\<close>.\<close>

fun js_sub :: "jsnum \<Rightarrow> jsnum \<Rightarrow> jsnum" where
  "js_sub (Fin a) (Fin b) = Fin (a - b)"
| "js_sub (Fin a) PosInf = NegInf"
| "js_sub (Fin a) NegInf = PosInf"
| "js_sub PosInf (Fin b) = PosInf"
| "js_sub NegInf (Fin b) = NegInf"
| "js_sub PosInf NegInf = PosInf"
| "js_sub NegInf PosInf = NegInf"
| "js_sub _ _ = NaN"

text \<open>The comparisons \<^verbatim>\<open><\<close> and \<^verbatim>\<open><=\<close>: false as soon as an operand is \<^verbatim>\<open>NaN\<close>.\<close>

fun js_lt :: "jsnum \<Rightarrow> jsnum \<Rightarrow> bool" where
  "js_lt (Fin a) (Fin b) = (a < b)"
| "js_lt (Fin a) PosInf = True"
| "js_lt NegInf (Fin b) = True"
| "js_lt NegInf PosInf = True"
| "js_lt _ _ = False"

fun js_le :: "jsnum \<Rightarrow> jsnum \<Rightarrow> bool" where
  "js_le (Fin a) (Fin b) = (a \<le> b)"
| "js_le (Fin a) PosInf = True"
| "js_le NegInf (Fin b) = True"
| "js_le NegInf PosInf = True"
| "js_le PosInf PosInf = True"
| "js_le NegInf NegInf = True"
| "js_le _ _ = False"

text \<open>
  Truthiness of a number, and \<^verbatim>\<open>a || b\<close> on numbers: the right operand replaces a
  left operand that is \<^verbatim>\<open>0\<close> or \<^verbatim>\<open>NaN\<close>.
\<close>

fun truthy :: "jsnum \<Rightarrow> bool" where
  "truthy (Fin a) = (a \<noteq> 0)"
| "truthy NaN = False"
| "truthy PosInf = True"
| "truthy NegInf = True"

definition js_or :: "jsnum \<Rightarrow> jsnum \<Rightarrow> jsnum" where
  "js_or a b = (if truthy a then a else b)"

text \<open>
  \<^verbatim>\<open>v?.field || 0\<close>: an absent object reads as \<^verbatim>\<open>undefined\<close>, which is falsy.
\<close>

definition orZero :: "jsnum option \<Rightarrow> jsnum" where
  "orZero v = (case v of None \<Rightarrow> Fin 0 | Some n \<Rightarrow> js_or n (Fin 0))"

subsection \<open>Rounding to binary64\<close>

text \<open>The number of binary digits of a positive integer.\<close>

function bits :: "int \<Rightarrow> nat" where
  "bits k = (if k \<le> 0 then 0 else Suc (bits (k div 2)))"
  by pat_completeness auto
termination
  by (relation "measure nat") auto

declare bits.simps [simp del]

definition pow2 :: "int \<Rightarrow> rat" where
  "pow2 k = (if 0 \<le> k then 2 ^ nat k else 1 / 2 ^ nat (- k))"

text \<open>
  The binary exponent of a positive rational \<open>a\<close>: the \<open>e\<close> with \<open>2 ^ e \<le> a < 2 ^ (e + 1)\<close>.
  For \<open>a = p / q\<close> in lowest terms it is the difference of the digit counts of \<open>p\<close> and
  \<open>q\<close>, or one less.
\<close>

definition exponent :: "rat \<Rightarrow> int" where
  "exponent a =
     (case quotient_of a of (p, q) \<Rightarrow>
        let d = int (bits p) - int (bits q)
        in if pow2 d \<le> a then d else d - 1)"

text \<open>The nearest integer, a tie going to the even one.\<close>

definition roundHalfEven :: "rat \<Rightarrow> int" where
  "roundHalfEven y =
     (let n = \<lfloor>y\<rfloor>; r = y - of_int n
      in if r < 1 / 2 then n else if 1 / 2 < r then n + 1 else if even n then n else n + 1)"

text \<open>
  Round to nearest, ties to even, with a significand of 53 bits: the magnitude is
  rounded to a multiple of \<open>u = 2 ^ (e - 52)\<close>, where \<open>e\<close> is its binary exponent and at
  least \<open>-1022\<close> (below that the values are subnormal and \<open>u\<close> stays \<open>2 ^ -1074\<close>). A
  result of \<open>2 ^ 1024\<close> or more is an infinity.
\<close>

definition roundDouble :: "rat \<Rightarrow> jsnum" where
  "roundDouble x =
     (if x = 0 then Fin 0
      else
        let a = \<bar>x\<bar>;
            e = max (exponent a) (- 1022);
            u = pow2 (e - 52);
            n = roundHalfEven (a / u)
        in if 1024 \<le> e \<or> (e = 1023 \<and> n = 9007199254740992)
           then (if 0 < x then PosInf else NegInf)
           else Fin (if 0 < x then of_int n * u else - (of_int n * u)))"

definition double :: "jsnum \<Rightarrow> jsnum" where
  "double v =
     (case v of Fin x \<Rightarrow> roundDouble x | PosInf \<Rightarrow> PosInf | NegInf \<Rightarrow> NegInf | NaN \<Rightarrow> NaN)"

text \<open>The operators \<^verbatim>\<open>/\<close>, \<^verbatim>\<open>*\<close> and \<^verbatim>\<open>-\<close> as the program computes them.\<close>

definition fdiv :: "jsnum \<Rightarrow> jsnum \<Rightarrow> jsnum" where
  "fdiv a b = double (js_div a b)"

definition fmul :: "jsnum \<Rightarrow> jsnum \<Rightarrow> jsnum" where
  "fmul a b = double (js_mul a b)"

definition fsub :: "jsnum \<Rightarrow> jsnum \<Rightarrow> jsnum" where
  "fsub a b = double (js_sub a b)"

section \<open>The document: elements read on demand\<close>

text \<open>
  An element is known by its identity; what \<^verbatim>\<open>getBoundingClientRect()\<close>,
  \<^verbatim>\<open>offsetWidth\<close> and \<^verbatim>\<open>offsetHeight\<close> return for it is the browser's state at the moment
  of the call. The document is therefore a store from element identities to the
  values the browser would return now. The fields \<open>elem_x\<close> ... \<open>elem_height\<close> are the
  \<^verbatim>\<open>x\<close>, \<^verbatim>\<open>y\<close>, \<^verbatim>\<open>width\<close>, \<^verbatim>\<open>height\<close> properties an \<^verbatim>\<open>HTMLImageElement\<close> has of its own,
  read when an image element is itself used as the animation target.
\<close>

record DOMRect =
  rect_x :: jsnum
  rect_y :: jsnum
  rect_width :: jsnum
  rect_height :: jsnum

record HTMLElement =
  boundingClientRect :: DOMRect
  offsetWidth :: jsnum
  offsetHeight :: jsnum
  elem_x :: jsnum
  elem_y :: jsnum
  elem_width :: jsnum
  elem_height :: jsnum

type_synonym elem = nat

type_synonym DOM = "elem \<Rightarrow> HTMLElement"

definition getBoundingClientRect :: "DOM \<Rightarrow> elem \<Rightarrow> DOMRect" where
  "getBoundingClientRect doc e = boundingClientRect (doc e)"

subsection \<open>Animation targets (lines 5-52)\<close>

text \<open>
  \<^verbatim>\<open>interface AnimationTarget { x, y, width, height }\<close> has two classes,
  \<^verbatim>\<open>HTMLElementAnimationTarget\<close> (getters over an element) and \<^verbatim>\<open>CustomAnimationTarget\<close>
  (four stored numbers). The controller also passes an image element itself where a
  target is expected (line 106); that is the third constructor.
\<close>

datatype AnimationTarget =
    HTMLElementAnimationTarget elem
  | CustomAnimationTarget jsnum jsnum jsnum jsnum
  | ImageElementTarget elem

text \<open>\<^verbatim>\<open>get elementBounds() { return this.target.getBoundingClientRect() }\<close>\<close>

definition elementBounds :: "DOM \<Rightarrow> elem \<Rightarrow> DOMRect" where
  "elementBounds doc target = getBoundingClientRect doc target"

fun target_x :: "DOM \<Rightarrow> AnimationTarget \<Rightarrow> jsnum" where
  "target_x doc (HTMLElementAnimationTarget target) = rect_x (elementBounds doc target)"
| "target_x doc (CustomAnimationTarget x y w h) = x"
| "target_x doc (ImageElementTarget e) = elem_x (doc e)"

fun target_y :: "DOM \<Rightarrow> AnimationTarget \<Rightarrow> jsnum" where
  "target_y doc (HTMLElementAnimationTarget target) = rect_y (elementBounds doc target)"
| "target_y doc (CustomAnimationTarget x y w h) = y"
| "target_y doc (ImageElementTarget e) = elem_y (doc e)"

fun target_width :: "DOM \<Rightarrow> AnimationTarget \<Rightarrow> jsnum" where
  "target_width doc (HTMLElementAnimationTarget target) = offsetWidth (doc target)"
| "target_width doc (CustomAnimationTarget x y w h) = w"
| "target_width doc (ImageElementTarget e) = elem_width (doc e)"

fun target_height :: "DOM \<Rightarrow> AnimationTarget \<Rightarrow> jsnum" where
  "target_height doc (HTMLElementAnimationTarget target) = offsetHeight (doc target)"
| "target_height doc (CustomAnimationTarget x y w h) = h"
| "target_height doc (ImageElementTarget e) = elem_height (doc e)"

subsection \<open>Image sources (lines 63-86)\<close>

text \<open>\<^verbatim>\<open>type ImageSource = string | HTMLImageElement\<close>\<close>

datatype ImageSource = Url string | ImageElement elem

datatype ImageSourceResolver = ImageSourceResolver ImageSource

fun isString :: "ImageSourceResolver \<Rightarrow> bool" where
  "isString (ImageSourceResolver (Url u)) = True"
| "isString (ImageSourceResolver (ImageElement e)) = False"

definition isElement :: "ImageSourceResolver \<Rightarrow> bool" where
  "isElement r = (\<not> isString r)"

text \<open>
  \<^verbatim>\<open>get image() { return this.source as HTMLImageElement }\<close>: the element of a source
  that is one. The cast is unchecked; the only caller (line 106) reads it under
  \<open>isElement\<close>.
\<close>

fun image_of :: "ImageSourceResolver \<Rightarrow> elem option" where
  "image_of (ImageSourceResolver (ImageElement e)) = Some e"
| "image_of (ImageSourceResolver (Url u)) = None"

section \<open>The aspect-fit layout (lines 231-276)\<close>

text \<open>
  \<^verbatim>\<open>image.current\<close> is the viewer's own \<^verbatim>\<open>img\<close> element, \<^verbatim>\<open>null\<close> until the first commit.
  \<^verbatim>\<open>naturalWidth\<close> and \<^verbatim>\<open>naturalHeight\<close> are \<^verbatim>\<open>unsigned long\<close> attributes of the DOM, 0
  while the image is not loaded.
\<close>

record HTMLImageElement =
  naturalWidth :: nat
  naturalHeight :: nat

definition num :: "nat \<Rightarrow> jsnum" where
  "num n = Fin (of_nat n)"

text \<open>
  Line 232:
  \<^verbatim>\<open>image.current ? (image.current.naturalHeight || 1) / (image.current.naturalWidth || 1) : 1\<close>
  The quotient is given exactly; the constant holds its rounding, \<open>double\<close> of it.
\<close>

definition imageAspectRatio :: "HTMLImageElement option \<Rightarrow> jsnum" where
  "imageAspectRatio current =
     (case current of
        None \<Rightarrow> Fin 1
      | Some img \<Rightarrow>
          js_div (js_or (num (naturalHeight img)) (Fin 1)) (js_or (num (naturalWidth img)) (Fin 1)))"

text \<open>
  Line 234: \<^verbatim>\<open>const screenAspectRatio = bodyHeight / bodyWidth\<close>, again as the exact
  quotient.
\<close>

definition screenAspectRatio :: "jsnum \<Rightarrow> jsnum \<Rightarrow> jsnum" where
  "screenAspectRatio bodyWidth' bodyHeight' = js_div bodyHeight' bodyWidth'"

text \<open>
  Lines 249-257: \<open>horizontalMargins\<close> starts true and \<open>verticalMargins\<close> false; the test
  \<^verbatim>\<open>imageAspectRatio < screenAspectRatio\<close> swaps them.
\<close>

definition verticalMargins :: "jsnum \<Rightarrow> jsnum \<Rightarrow> HTMLImageElement option \<Rightarrow> bool" where
  "verticalMargins bodyWidth' bodyHeight' current =
     (if js_lt (imageAspectRatio current) (screenAspectRatio bodyWidth' bodyHeight')
      then True else False)"

definition horizontalMargins :: "jsnum \<Rightarrow> jsnum \<Rightarrow> HTMLImageElement option \<Rightarrow> bool" where
  "horizontalMargins bodyWidth' bodyHeight' current =
     (if js_lt (imageAspectRatio current) (screenAspectRatio bodyWidth' bodyHeight')
      then False else True)"

text \<open>
  Lines 260-261:
  \<^verbatim>\<open>let left = (bodyWidth - (screenAspectRatio / imageAspectRatio) * bodyWidth) / 2\<close>
  \<^verbatim>\<open>if (left < 0) left = 0\<close>
  The two ratios enter as the binary64 values the constants of lines 232 and 234 hold,
  and each of the four operations rounds its result.
\<close>

definition leftPadding :: "jsnum \<Rightarrow> jsnum \<Rightarrow> HTMLImageElement option \<Rightarrow> jsnum" where
  "leftPadding bodyWidth' bodyHeight' current =
     (let screenAspectRatio' = double (screenAspectRatio bodyWidth' bodyHeight');
          imageAspectRatio' = double (imageAspectRatio current);
          left =
            fdiv
              (fsub bodyWidth' (fmul (fdiv screenAspectRatio' imageAspectRatio') bodyWidth'))
              (Fin 2)
      in if js_lt left (Fin 0) then Fin 0 else left)"

section \<open>The viewer's state (lines 151-172)\<close>

text \<open>
  The \<^verbatim>\<open>useState\<close> cells of \<^verbatim>\<open>AnimatedPhotoView\<close>, of \<^verbatim>\<open>useWindowSize\<close> (\<open>bodyWidth\<close>,
  \<open>bodyHeight\<close>) and of \<^verbatim>\<open>useUpdate\<close> (\<open>updating\<close>).
\<close>

record ViewerState =
  visible :: bool
  "opening" :: bool
  closing :: bool
  updating :: bool
  animationTarget :: "AnimationTarget option"
  source :: "ImageSourceResolver option"
  bodyWidth :: jsnum
  bodyHeight :: jsnum

text \<open>Line 161: \<^verbatim>\<open>const animating = closing || opening\<close>\<close>

definition animating :: "'a ViewerState_scheme \<Rightarrow> bool" where
  "animating s = (closing s \<or> opening s)"

text \<open>Line 163: \<^verbatim>\<open>const duration = 2000\<close>\<close>

definition duration :: nat where
  "duration = 2000"

section \<open>The derived styles (lines 199-276)\<close>

text \<open>
  Lines 199-210: the local variables \<^verbatim>\<open>_width\<close>, \<^verbatim>\<open>_height\<close>, \<^verbatim>\<open>_left\<close>, \<^verbatim>\<open>_top\<close>. Each starts
  at the viewport's value and is replaced, when \<^verbatim>\<open>updating || closing\<close>, by
  \<^verbatim>\<open>animationTarget?.field || 0\<close>. The target's fields are read from the document at
  render time.
\<close>

definition box_width :: "DOM \<Rightarrow> 'a ViewerState_scheme \<Rightarrow> jsnum" where
  "box_width doc s =
     (if updating s \<or> closing s
      then orZero (map_option (target_width doc) (animationTarget s))
      else bodyWidth s)"

definition box_height :: "DOM \<Rightarrow> 'a ViewerState_scheme \<Rightarrow> jsnum" where
  "box_height doc s =
     (if updating s \<or> closing s
      then orZero (map_option (target_height doc) (animationTarget s))
      else bodyHeight s)"

definition box_left :: "DOM \<Rightarrow> 'a ViewerState_scheme \<Rightarrow> jsnum" where
  "box_left doc s =
     (if updating s \<or> closing s
      then orZero (map_option (target_x doc) (animationTarget s))
      else Fin 0)"

definition box_top :: "DOM \<Rightarrow> 'a ViewerState_scheme \<Rightarrow> jsnum" where
  "box_top doc s =
     (if updating s \<or> closing s
      then orZero (map_option (target_y doc) (animationTarget s))
      else Fin 0)"

text \<open>
  Line 225, the opacity of the black background:
  \<^verbatim>\<open>opacity: (!(visible && !updating) || closing) ? 0 : 1\<close>
\<close>

definition opacity :: "'a ViewerState_scheme \<Rightarrow> nat" where
  "opacity s = (if \<not> (visible s \<and> \<not> updating s) \<or> closing s then 0 else 1)"

text \<open>
  The values a style property of the container takes: a number (React reads it as
  pixels), the string \<^verbatim>\<open>n + 'px'\<close>, or \<^verbatim>\<open>'100%'\<close>.
\<close>

datatype css_length = CssNumber jsnum | CssPx jsnum | Percent100

datatype css_display = Flex | DisplayNone

text \<open>
  Lines 238-247 and 254, 265-272: the style of the main container. \<open>transition\<close> is
  \<open>Some d\<close> for \<^verbatim>\<open>`all ${d}ms`\<close> and \<open>None\<close> for \<^verbatim>\<open>null\<close>; \<open>alignItems\<close> is set to
  \<^verbatim>\<open>'center'\<close> only in the branch of line 253.
\<close>

record CSSProperties =
  width :: css_length
  height :: css_length
  left :: jsnum
  top' :: jsnum
  position :: string
  display :: css_display
  transition :: "nat option"
  overflow :: string
  alignItems :: "string option"
  paddingLeft :: css_length
  paddingRight :: css_length

definition style :: "DOM \<Rightarrow> HTMLImageElement option \<Rightarrow> 'a ViewerState_scheme \<Rightarrow> CSSProperties" where
  "style doc current s =
     \<lparr> width = (if animating s then CssNumber (box_width doc s) else Percent100),
       height = (if animating s then CssNumber (box_height doc s) else Percent100),
       left = box_left doc s,
       top' = box_top doc s,
       position = ''fixed'',
       display = (if visible s then Flex else DisplayNone),
       transition = (if animating s then Some duration else None),
       overflow = ''hidden'',
       alignItems =
         (if js_lt (imageAspectRatio current) (screenAspectRatio (bodyWidth s) (bodyHeight s))
          then Some ''center'' else None),
       paddingLeft =
         (if updating s \<or> closing s then CssNumber (Fin 0)
          else CssPx (leftPadding (bodyWidth s) (bodyHeight s) current)),
       paddingRight =
         (if updating s \<or> closing s then CssNumber (Fin 0)
          else CssPx (leftPadding (bodyWidth s) (bodyHeight s) current)) \<rparr>"

section \<open>Timers and the handlers (lines 128-141, 179-197)\<close>

text \<open>
  The three callbacks the component hands to \<^verbatim>\<open>setTimeout\<close>:
  \<^item> \<open>UpdateDone\<close>, of \<^verbatim>\<open>useUpdate\<close> (lines 134-138): \<^verbatim>\<open>setUpdating(false); cb && cb()\<close>, where
    both call sites pass no \<^verbatim>\<open>cb\<close>;
  \<^item> \<open>OpeningDone\<close> (line 186): \<^verbatim>\<open>setOpening(false)\<close>;
  \<^item> \<open>ClosingDone\<close> (lines 193-196): \<^verbatim>\<open>setClosing(false); setVisible(false)\<close>.
\<close>

datatype TimerCallback = UpdateDone | OpeningDone | ClosingDone

text \<open>
  The world the handlers act on: the viewer's state, the window's live size, the clock
  in milliseconds, the pending timers (due time and callback, earliest first), and what
  the controller is bound to.

  \<open>controls\<close> records the handlers stored by \<^verbatim>\<open>controller.setControls\<close>. The effect of lines
  175-177 has the dependency list \<^verbatim>\<open>[controller]\<close>: it runs after the first commit and
  again only when the \<^verbatim>\<open>controller\<close> prop changes, not on the re-renders that the viewer's
  own state changes cause. The functions \<^verbatim>\<open>openView\<close> and \<^verbatim>\<open>closeView\<close> it stores are those
  of the render in which it ran, and each closes over that render's constant
  \<^verbatim>\<open>animating\<close>. Everything else the two functions touch (the state setters, \<^verbatim>\<open>update\<close>,
  \<^verbatim>\<open>duration\<close>) is the same in every render, so a pair of stored handlers is determined by
  the value of \<^verbatim>\<open>animating\<close> it captured: \<open>controls = Some a\<close>. \<open>None\<close> is a controller
  on which \<^verbatim>\<open>setControls\<close> has not been called.
\<close>

record World = ViewerState +
  innerWidth :: jsnum
  innerHeight :: jsnum
  now :: nat
  timers :: "(nat \<times> TimerCallback) list"
  controls :: "bool option"

text \<open>
  \<^verbatim>\<open>setTimeout(cb, delay)\<close>: the timer is due at \<open>now + delay\<close> and runs after every
  pending timer that is due no later.
\<close>

fun enqueue :: "nat \<times> TimerCallback \<Rightarrow> (nat \<times> TimerCallback) list \<Rightarrow> (nat \<times> TimerCallback) list" where
  "enqueue t [] = [t]"
| "enqueue t (u # us) = (if fst u \<le> fst t then u # enqueue t us else t # u # us)"

definition setTimeout :: "TimerCallback \<Rightarrow> nat \<Rightarrow> World \<Rightarrow> World" where
  "setTimeout cb delay w = w\<lparr>timers := enqueue (now w + delay, cb) (timers w)\<rparr>"

text \<open>
  Lines 132-139, \<^verbatim>\<open>update\<close> of \<^verbatim>\<open>useUpdate\<close>:
  \<^verbatim>\<open>setUpdating(true); setTimeout(() => { setUpdating(false); cb && cb() }, 0)\<close>
\<close>

definition update :: "World \<Rightarrow> World" where
  "update w = setTimeout UpdateDone 0 (w\<lparr>updating := True\<rparr>)"

text \<open>
  Lines 179-187. The first argument is the value of the constant \<^verbatim>\<open>animating\<close> in the
  render that created this \<^verbatim>\<open>openView\<close>.
\<close>

definition openView :: "bool \<Rightarrow> ImageSourceResolver \<Rightarrow> AnimationTarget \<Rightarrow> World \<Rightarrow> World" where
  "openView animating' source' animationTarget' w =
     (if animating' then w
      else setTimeout OpeningDone duration
             (update (w\<lparr>visible := True, source := Some source', opening := True,
                         animationTarget := Some animationTarget'\<rparr>)))"

text \<open>
  Lines 189-197. \<^verbatim>\<open>function closeView()\<close> declares no parameter: whatever a caller passes
  (the type \<^verbatim>\<open>closeView\<close> of line 55 allows an \<^verbatim>\<open>animateTo\<close> rectangle, and \<^verbatim>\<open>onClick\<close> passes
  the click event) is dropped at the call.
\<close>

definition closeView :: "bool \<Rightarrow> World \<Rightarrow> World" where
  "closeView animating' w =
     (if animating' then w
      else setTimeout ClosingDone duration ((update w)\<lparr>closing := True\<rparr>))"

fun runCallback :: "TimerCallback \<Rightarrow> World \<Rightarrow> World" where
  "runCallback UpdateDone w = w\<lparr>updating := False\<rparr>"
| "runCallback OpeningDone w = w\<lparr>opening := False\<rparr>"
| "runCallback ClosingDone w = w\<lparr>closing := False, visible := False\<rparr>"

text \<open>The event loop runs the first pending timer, if it is due.\<close>

definition runTimer :: "World \<Rightarrow> World" where
  "runTimer w =
     (case timers w of
        [] \<Rightarrow> w
      | (due, cb) # rest \<Rightarrow>
          if due \<le> now w then runCallback cb (w\<lparr>timers := rest\<rparr>) else w)"

section \<open>The controller (lines 88-110)\<close>

datatype error = TypeError

text \<open>
  Lines 105-107 of \<^verbatim>\<open>AnimatedPhotoViewController.openView\<close>:
  \<^verbatim>\<open>const _source = new ImageSourceResolver(source)\<close>
  \<^verbatim>\<open>if (animationTarget === undefined && _source.isElement) animationTarget = _source.image\<close>
  \<^verbatim>\<open>if (!animationTarget) animationTarget = new CustomAnimationTarget(\<close>
  \<^verbatim>\<open>    window.innerWidth / 2, window.innerHeight / 2, 10, 10)\<close>
  An omitted argument is \<open>None\<close>; an object is never falsy.
\<close>

definition resolveAnimationTarget :: "ImageSource \<Rightarrow> AnimationTarget option \<Rightarrow> World \<Rightarrow> AnimationTarget" where
  "resolveAnimationTarget src animationTarget' w =
     (let source1 = ImageSourceResolver src;
          animationTarget1 =
            (if animationTarget' = None \<and> isElement source1
             then map_option ImageElementTarget (image_of source1)
             else animationTarget')
      in case animationTarget1 of
           None \<Rightarrow>
             CustomAnimationTarget (js_div (innerWidth w) (Fin 2)) (js_div (innerHeight w) (Fin 2))
               (Fin 10) (Fin 10)
         | Some t \<Rightarrow> t)"

text \<open>
  Line 108, \<^verbatim>\<open>this._openView(_source, animationTarget)\<close>: a \<^verbatim>\<open>TypeError\<close> on a controller
  without controls, and otherwise a call of the stored \<^verbatim>\<open>openView\<close>, with the \<^verbatim>\<open>animating\<close>
  that function captured.
\<close>

definition controller_openView :: "ImageSource \<Rightarrow> AnimationTarget option \<Rightarrow> World \<Rightarrow> error + World" where
  "controller_openView src animationTarget' w =
     (case controls w of
        None \<Rightarrow> Inl TypeError
      | Some a \<Rightarrow>
          Inr (openView a (ImageSourceResolver src) (resolveAnimationTarget src animationTarget' w) w))"

text \<open>Lines 100-102.\<close>

definition openViewFromElement :: "ImageSource \<Rightarrow> elem option \<Rightarrow> World \<Rightarrow> error + World" where
  "openViewFromElement src animationTargetElement w =
     controller_openView src (map_option HTMLElementAnimationTarget animationTargetElement) w"

text \<open>
  The class has no \<^verbatim>\<open>closeView\<close> method; the stored handler is its public field
  \<^verbatim>\<open>_closeView\<close>, called as \<^verbatim>\<open>controller._closeView(animateTo)\<close>.
\<close>

definition controller_closeView :: "AnimationTarget option \<Rightarrow> World \<Rightarrow> error + World" where
  "controller_closeView animateTo w =
     (case controls w of
        None \<Rightarrow> Inl TypeError
      | Some a \<Rightarrow> Inr (closeView a w))"

text \<open>Lines 91-98.\<close>

definition setControls :: "bool \<Rightarrow> World \<Rightarrow> World" where
  "setControls a w = w\<lparr>controls := Some a\<rparr>"

section \<open>Mounting and events\<close>

text \<open>
  The first render: every \<^verbatim>\<open>useState\<close> cell at its initial value (lines 114-115, 130,
  153-167), for a window of the given size, no timer pending, the controller unbound.
\<close>

definition initialWorld :: "jsnum \<Rightarrow> jsnum \<Rightarrow> World" where
  "initialWorld W H =
     \<lparr> visible = False, opening = False, closing = False, updating = False,
       animationTarget = None, source = None,
       bodyWidth = js_or W (Fin 1000), bodyHeight = js_or H (Fin 1000),
       innerWidth = W, innerHeight = H, now = 0, timers = [], controls = None \<rparr>"

text \<open>
  After the first commit the effect of lines 175-177 binds the controller to the
  handlers of the first render.
\<close>

definition mount :: "jsnum \<Rightarrow> jsnum \<Rightarrow> World" where
  "mount W H = setControls (animating (initialWorld W H)) (initialWorld W H)"

text \<open>
  What can happen next:
  \<^item> the host calls the controller (\<^verbatim>\<open>openView\<close>, \<^verbatim>\<open>openViewFromElement\<close>, \<^verbatim>\<open>_closeView\<close>);
  \<^item> the user clicks the image, whose \<^verbatim>\<open>onClick\<close> (line 289) is the \<^verbatim>\<open>closeView\<close> of the
    latest render. React commits a render after every handler and timer callback that
    changed the state, so that render's \<^verbatim>\<open>animating\<close> is the one of the current state;
  \<^item> the window is resized, and the listener of lines 118-121 copies its size;
  \<^item> time passes (\<open>Tick\<close>), whether or not the event loop gets to run a timer;
  \<^item> the event loop runs a timer (\<open>RunTimer\<close>): never before it is due, the earliest due
    first, and among timers due at the same time the one scheduled first.
\<close>

datatype event =
    ControllerOpenView ImageSource "AnimationTarget option"
  | ControllerOpenViewFromElement ImageSource "elem option"
  | ControllerCloseView "AnimationTarget option"
  | ImgClick
  | Resize jsnum jsnum
  | Tick nat
  | RunTimer

fun step :: "event \<Rightarrow> World \<Rightarrow> error + World" where
  "step (ControllerOpenView src t) w = controller_openView src t w"
| "step (ControllerOpenViewFromElement src e) w = openViewFromElement src e w"
| "step (ControllerCloseView animateTo) w = controller_closeView animateTo w"
| "step ImgClick w = Inr (closeView (animating w) w)"
| "step (Resize W H) w =
     Inr (w\<lparr>innerWidth := W, innerHeight := H, bodyWidth := W, bodyHeight := H\<rparr>)"
| "step (Tick d) w = Inr (w\<lparr>now := now w + d\<rparr>)"
| "step RunTimer w = Inr (runTimer w)"

fun run :: "event list \<Rightarrow> World \<Rightarrow> error + World" where
  "run [] w = Inr w"
| "run (e # es) w = (case step e w of Inl err \<Rightarrow> Inl err | Inr w' \<Rightarrow> run es w')"

text \<open>The events that are the clock's and the event loop's, not a call of a handler.\<close>

fun timerEvent :: "event \<Rightarrow> bool" where
  "timerEvent (Tick d) = True"
| "timerEvent RunTimer = True"
| "timerEvent e = False"

subsection \<open>Concrete inputs\<close>

text \<open>
  A document in which every element has its bounding box at (100, 100) with size
  100 by 100 (as under a transform that doubles it) and a layout box of 50 by 50.
\<close>

definition exampleDocument :: DOM where
  "exampleDocument e =
     \<lparr> boundingClientRect =
         \<lparr>rect_x = Fin 100, rect_y = Fin 100, rect_width = Fin 100, rect_height = Fin 100\<rparr>,
       offsetWidth = Fin 50, offsetHeight = Fin 50,
       elem_x = Fin 100, elem_y = Fin 100, elem_width = Fin 50, elem_height = Fin 50 \<rparr>"

text \<open>The same element after the page has scrolled by 40 and the element has grown.\<close>

definition movedElement :: HTMLElement where
  "movedElement =
     \<lparr> boundingClientRect =
         \<lparr>rect_x = Fin 100, rect_y = Fin 60, rect_width = Fin 160, rect_height = Fin 160\<rparr>,
       offsetWidth = Fin 80, offsetHeight = Fin 80,
       elem_x = Fin 100, elem_y = Fin 60, elem_width = Fin 80, elem_height = Fin 80 \<rparr>"

definition thumbnail :: AnimationTarget where
  "thumbnail = CustomAnimationTarget (Fin 100) (Fin 100) (Fin 50) (Fin 50)"

text \<open>
  The steady open state in a 1000 by 1000 window: the viewer was opened from
  \<open>thumbnail\<close> at time 0 and both timers of that call have run.
\<close>

definition openWorld :: World where
  "openWorld =
     \<lparr> visible = True, opening = False, closing = False, updating = False,
       animationTarget = Some thumbnail, source = Some (ImageSourceResolver (Url ''a.jpg'')),
       bodyWidth = Fin 1000, bodyHeight = Fin 1000,
       innerWidth = Fin 1000, innerHeight = Fin 1000, now = 2000, timers = [],
       controls = Some False \<rparr>"

section \<open>Properties of the layout\<close>

lemma js_lt_irrefl: "\<not> js_lt a a"
  by (cases a) simp_all

lemma double_one: "double (Fin 1) = Fin 1"
  by code_simp

text \<open>
  Claim C1. An image element reports its two natural dimensions as 0 together (the image
  is not loaded) or as positive together. For every such natural size the aspect ratio
  is the quotient \<open>ih / iw\<close> when the dimensions are positive, and 1 whenever one of them
  is 0; it is 1 as well while the viewer has no image element yet. The divisor is never
  0. The binary64 value the constant of line 232 holds is the rounded quotient
  \<open>fdiv ih iw\<close>, and exactly 1 in the fallback cases.
\<close>

theorem C1_imageAspectRatio:
  "imageAspectRatio None = Fin 1
   \<and> double (imageAspectRatio None) = Fin 1
   \<and> ((naturalWidth img = 0) = (naturalHeight img = 0) \<longrightarrow>
        (naturalWidth img = 0 \<or> naturalHeight img = 0 \<longrightarrow>
           imageAspectRatio (Some img) = Fin 1
           \<and> double (imageAspectRatio (Some img)) = Fin 1)
        \<and> (0 < naturalWidth img \<and> 0 < naturalHeight img \<longrightarrow>
             imageAspectRatio (Some img)
               = js_div (num (naturalHeight img)) (num (naturalWidth img))
             \<and> imageAspectRatio (Some img)
               = Fin (of_nat (naturalHeight img) / of_nat (naturalWidth img))
             \<and> double (imageAspectRatio (Some img))
               = fdiv (num (naturalHeight img)) (num (naturalWidth img))))"
  by (auto simp: imageAspectRatio_def js_or_def num_def fdiv_def double_one)

theorem C1_imageAspectRatio_witness:
  "imageAspectRatio None = Fin 1
   \<and> imageAspectRatio (Some \<lparr>naturalWidth = 0, naturalHeight = 0\<rparr>) = Fin 1
   \<and> imageAspectRatio (Some \<lparr>naturalWidth = 2000, naturalHeight = 1000\<rparr>) = Fin (1 / 2)
   \<and> double (imageAspectRatio (Some \<lparr>naturalWidth = 2000, naturalHeight = 1000\<rparr>))
       = fdiv (num 1000) (num 2000)"
  using C1_imageAspectRatio [of "\<lparr>naturalWidth = 0, naturalHeight = 0\<rparr>"]
    C1_imageAspectRatio [of "\<lparr>naturalWidth = 2000, naturalHeight = 1000\<rparr>"]
  by (simp add: num_def fdiv_def)

text \<open>
  Claim C2. For an image of positive natural size \<open>iw\<close> by \<open>ih\<close> and any viewport \<open>W\<close> by
  \<open>H\<close>, \<open>verticalMargins\<close> is true exactly when \<open>ih / iw < H / W\<close> (the comparison of the
  two quotients as JavaScript computes them), \<open>horizontalMargins\<close> is its negation, and
  equal quotients give the horizontal mode. For a viewport of positive width the test is
  the comparison of the two rational quotients.
\<close>

theorem C2_margin_mode:
  assumes "0 < iw" and "0 < ih"
  shows "(verticalMargins W H (Some \<lparr>naturalWidth = iw, naturalHeight = ih\<rparr>)
            = js_lt (js_div (num ih) (num iw)) (js_div H W))
       \<and> (horizontalMargins W H (Some \<lparr>naturalWidth = iw, naturalHeight = ih\<rparr>)
            = (\<not> js_lt (js_div (num ih) (num iw)) (js_div H W)))
       \<and> (js_div (num ih) (num iw) = js_div H W \<longrightarrow>
            horizontalMargins W H (Some \<lparr>naturalWidth = iw, naturalHeight = ih\<rparr>)
            \<and> \<not> verticalMargins W H (Some \<lparr>naturalWidth = iw, naturalHeight = ih\<rparr>))
       \<and> (\<forall>w h. 0 < w \<longrightarrow>
            verticalMargins (Fin w) (Fin h) (Some \<lparr>naturalWidth = iw, naturalHeight = ih\<rparr>)
              = (of_nat ih / of_nat iw < h / w))"
  using assms
  by (auto simp: verticalMargins_def horizontalMargins_def screenAspectRatio_def
      imageAspectRatio_def js_or_def num_def js_lt_irrefl)

theorem C2_margin_mode_witness:
  "verticalMargins (Fin 500) (Fin 1000) (Some \<lparr>naturalWidth = 2000, naturalHeight = 1000\<rparr>)
   \<and> \<not> horizontalMargins (Fin 500) (Fin 1000) (Some \<lparr>naturalWidth = 2000, naturalHeight = 1000\<rparr>)
   \<and> horizontalMargins (Fin 1000) (Fin 1000) (Some \<lparr>naturalWidth = 300, naturalHeight = 300\<rparr>)
   \<and> \<not> verticalMargins (Fin 1000) (Fin 1000) (Some \<lparr>naturalWidth = 300, naturalHeight = 300\<rparr>)"
  using C2_margin_mode [of 2000 1000 "Fin 500" "Fin 1000"]
    C2_margin_mode [of 300 300 "Fin 1000" "Fin 1000"]
  by (simp add: num_def)

subsection \<open>The horizontal padding\<close>

text \<open>
  A 1920 by 1080 viewport and a 600 by 500 image: the four rounded operations give
  \<open>312 + 2 ^ -43\<close>, the binary64 value that prints as \<^verbatim>\<open>312.0000000000001\<close>, where exact
  arithmetic would give 312.
\<close>

lemma double_9_16: "double (Fin (9 / 16)) = Fin (9 / 16)"
  by code_simp

lemma double_5_6: "double (Fin (5 / 6)) = Fin (7505999378950827 / 9007199254740992)"
  by code_simp

lemma fdiv_ratios:
  "fdiv (Fin (9 / 16)) (Fin (7505999378950827 / 9007199254740992))
     = Fin (6079859496950169 / 9007199254740992)"
  by code_simp

lemma fmul_width:
  "fmul (Fin (6079859496950169 / 9007199254740992)) (Fin 1920)
     = Fin (5699868278390783 / 4398046511104)"
  by code_simp

lemma fsub_width:
  "fsub (Fin 1920) (Fin (5699868278390783 / 4398046511104)) = Fin (624 + 1 / 2 ^ 42)"
  by code_simp

lemma fdiv_half: "fdiv (Fin (624 + 1 / 2 ^ 42)) (Fin 2) = Fin (312 + 1 / 2 ^ 43)"
  by code_simp

lemma leftPadding_1920_1080:
  "leftPadding (Fin 1920) (Fin 1080) (Some \<lparr>naturalWidth = 600, naturalHeight = 500\<rparr>)
     = Fin (312 + 1 / 2 ^ 43)"
proof -
  have iar: "imageAspectRatio (Some \<lparr>naturalWidth = 600, naturalHeight = 500\<rparr>) = Fin (5 / 6)"
    by (simp add: imageAspectRatio_def js_or_def num_def)
  have sar: "screenAspectRatio (Fin 1920) (Fin 1080) = Fin (9 / 16)"
    by (simp add: screenAspectRatio_def)
  show ?thesis
    unfolding leftPadding_def iar sar Let_def double_9_16 double_5_6 fdiv_ratios fmul_width
      fsub_width fdiv_half
    by simp
qed

text \<open>
  The test of line 261 leaves no negative padding: the result is at least 0 whenever it
  is a number. Both sides of the container get the same value.
\<close>

lemma clamp_nonneg:
  "(if js_lt v (Fin 0) then Fin 0 else v) = NaN
   \<or> js_le (Fin 0) (if js_lt v (Fin 0) then Fin 0 else v)"
  by (cases v) auto

lemma leftPadding_nonneg_or_NaN:
  "leftPadding W H current = NaN \<or> js_le (Fin 0) (leftPadding W H current)"
  unfolding leftPadding_def Let_def by (rule clamp_nonneg)

lemma padding_symmetric:
  "paddingLeft (style doc current s) = paddingRight (style doc current s)"
  by (simp add: style_def)

lemma leftPadding_zero_width:
  "leftPadding (Fin 0) (Fin 1000) (Some \<lparr>naturalWidth = 100, naturalHeight = 100\<rparr>) = NaN"
  by code_simp

text \<open>
  Claim C6, on the code. The first render replaces a window width of 0 by 1000 (lines
  114-115), but the resize listener stores it as it is (line 119). With a width of 0
  and a height of 1000, \<open>H / W\<close> is \<^verbatim>\<open>Infinity\<close>, \<^verbatim>\<open>Infinity * 0\<close> is \<^verbatim>\<open>NaN\<close>, the test
  \<^verbatim>\<open>left < 0\<close> is false for it, and the padding of a 100 by 100 image is \<^verbatim>\<open>NaN\<close>: not at
  least 0, and \<^verbatim>\<open>'NaNpx'\<close> in the style.
\<close>

theorem C6_padding_at_zero_width:
  "bodyWidth (mount (Fin 0) (Fin 1000)) = Fin 1000
   \<and> step (Resize (Fin 0) (Fin 1000)) openWorld
       = Inr (openWorld\<lparr>innerWidth := Fin 0, innerHeight := Fin 1000,
                         bodyWidth := Fin 0, bodyHeight := Fin 1000\<rparr>)
   \<and> leftPadding (Fin 0) (Fin 1000) (Some \<lparr>naturalWidth = 100, naturalHeight = 100\<rparr>) = NaN
   \<and> \<not> js_le (Fin 0)
         (leftPadding (Fin 0) (Fin 1000) (Some \<lparr>naturalWidth = 100, naturalHeight = 100\<rparr>))
   \<and> paddingLeft (style exampleDocument (Some \<lparr>naturalWidth = 100, naturalHeight = 100\<rparr>)
        (openWorld\<lparr>innerWidth := Fin 0, innerHeight := Fin 1000,
                    bodyWidth := Fin 0, bodyHeight := Fin 1000\<rparr>)) = CssPx NaN"
  by (simp add: leftPadding_zero_width style_def openWorld_def mount_def setControls_def
      initialWorld_def js_or_def)

section \<open>Properties of the derived styles\<close>

text \<open>
  Claim C4. The opacity of the background depends on \<open>visible\<close>, \<open>updating\<close> and \<open>closing\<close>
  only: it is 0 unless \<open>visible\<close> holds and \<open>updating\<close> does not, it is 0 whenever
  \<open>closing\<close> holds, and it is 1 exactly when the viewer is visible, not updating and
  not closing; it takes no other value.
\<close>

theorem C4_opacity:
  "(\<not> (visible s \<and> \<not> updating s) \<longrightarrow> opacity s = 0)
   \<and> (closing s \<longrightarrow> opacity s = 0)
   \<and> ((opacity s = 1) = (visible s \<and> \<not> updating s \<and> \<not> closing s))
   \<and> ((opacity s = 0) = (\<not> (visible s \<and> \<not> updating s \<and> \<not> closing s)))"
  by (auto simp: opacity_def)

theorem C4_opacity_witness:
  "opacity \<lparr>visible = True, opening = False, closing = False, updating = False,
       animationTarget = None, source = None, bodyWidth = Fin 1000, bodyHeight = Fin 1000\<rparr> = 1
   \<and> opacity \<lparr>visible = True, opening = False, closing = True, updating = False,
       animationTarget = None, source = None, bodyWidth = Fin 1000, bodyHeight = Fin 1000\<rparr> = 0
   \<and> opacity \<lparr>visible = True, opening = True, closing = False, updating = True,
       animationTarget = None, source = None, bodyWidth = Fin 1000, bodyHeight = Fin 1000\<rparr> = 0"
  using C4_opacity [of "\<lparr>visible = True, opening = False, closing = False, updating = False,
       animationTarget = None, source = None, bodyWidth = Fin 1000, bodyHeight = Fin 1000\<rparr>"]
    C4_opacity [of "\<lparr>visible = True, opening = False, closing = True, updating = False,
       animationTarget = None, source = None, bodyWidth = Fin 1000, bodyHeight = Fin 1000\<rparr>"]
    C4_opacity [of "\<lparr>visible = True, opening = True, closing = False, updating = True,
       animationTarget = None, source = None, bodyWidth = Fin 1000, bodyHeight = Fin 1000\<rparr>"]
  by simp

text \<open>
  In every state in which \<open>updating\<close> comes with \<open>opening\<close> or \<open>closing\<close>, as it does when
  no call is accepted during a transition, the container is pinned to the target: when
  \<open>updating\<close> or \<open>closing\<close> holds, both paddings are the number 0 and width, height, left
  and top are the target's (0 for an absent target); otherwise the position is (0, 0)
  and both paddings are the aspect-fit padding in pixels.
\<close>

lemma container_style_pinned:
  assumes "updating s \<longrightarrow> opening s \<or> closing s"
  shows "(updating s \<or> closing s \<longrightarrow>
            paddingLeft (style doc current s) = CssNumber (Fin 0)
            \<and> paddingRight (style doc current s) = CssNumber (Fin 0)
            \<and> width (style doc current s)
                 = CssNumber (orZero (map_option (target_width doc) (animationTarget s)))
            \<and> height (style doc current s)
                 = CssNumber (orZero (map_option (target_height doc) (animationTarget s)))
            \<and> left (style doc current s) = orZero (map_option (target_x doc) (animationTarget s))
            \<and> top' (style doc current s) = orZero (map_option (target_y doc) (animationTarget s)))
         \<and> (\<not> (updating s \<or> closing s) \<longrightarrow>
            left (style doc current s) = Fin 0
            \<and> top' (style doc current s) = Fin 0
            \<and> paddingLeft (style doc current s)
                 = CssPx (leftPadding (bodyWidth s) (bodyHeight s) current)
            \<and> paddingRight (style doc current s)
                 = CssPx (leftPadding (bodyWidth s) (bodyHeight s) current))"
  using assms
  by (auto simp: style_def box_left_def box_top_def box_width_def box_height_def animating_def)

section \<open>Properties of the geometry\<close>

text \<open>
  Claim C8. For every element \<open>e\<close> and every state of the document, the target built on
  \<open>e\<close> reads its width and height from the element's offset box and its \<open>x\<close> and \<open>y\<close>
  from the element's bounding rectangle, two separate queries. The target stores the
  element only: after the document has changed at \<open>e\<close>, the same target reads the new
  values.
\<close>

theorem C8_live_target:
  "target_width doc (HTMLElementAnimationTarget e) = offsetWidth (doc e)
   \<and> target_height doc (HTMLElementAnimationTarget e) = offsetHeight (doc e)
   \<and> target_x doc (HTMLElementAnimationTarget e) = rect_x (getBoundingClientRect doc e)
   \<and> target_y doc (HTMLElementAnimationTarget e) = rect_y (getBoundingClientRect doc e)
   \<and> target_width (doc(e := el)) (HTMLElementAnimationTarget e) = offsetWidth el
   \<and> target_height (doc(e := el)) (HTMLElementAnimationTarget e) = offsetHeight el
   \<and> target_x (doc(e := el)) (HTMLElementAnimationTarget e) = rect_x (boundingClientRect el)
   \<and> target_y (doc(e := el)) (HTMLElementAnimationTarget e) = rect_y (boundingClientRect el)"
  by (simp add: elementBounds_def getBoundingClientRect_def)

theorem C8_live_target_witness:
  "target_width exampleDocument (HTMLElementAnimationTarget 7) = Fin 50
   \<and> rect_width (getBoundingClientRect exampleDocument 7) = Fin 100
   \<and> target_x exampleDocument (HTMLElementAnimationTarget 7) = Fin 100
   \<and> target_y exampleDocument (HTMLElementAnimationTarget 7) = Fin 100
   \<and> target_y (exampleDocument(7 := movedElement)) (HTMLElementAnimationTarget 7) = Fin 60
   \<and> target_width (exampleDocument(7 := movedElement)) (HTMLElementAnimationTarget 7) = Fin 80"
  using C8_live_target [of exampleDocument 7 movedElement]
  by (simp add: exampleDocument_def movedElement_def getBoundingClientRect_def)

text \<open>
  Claim C7. When the controller's \<^verbatim>\<open>openView\<close> is called with a URL and no target, the
  target it resolves is the stored rectangle with \<open>x\<close> half the window's width, \<open>y\<close> half
  its height, and width and height 10, whatever the document; the bound \<^verbatim>\<open>openView\<close>
  stores that target in the state. In a 1000 by 1000 window it is (500, 500, 10, 10).
\<close>

theorem C7_fallback_target:
  "resolveAnimationTarget (Url u) None w
     = CustomAnimationTarget (js_div (innerWidth w) (Fin 2)) (js_div (innerHeight w) (Fin 2))
         (Fin 10) (Fin 10)
   \<and> (innerWidth w = Fin W \<longrightarrow> innerHeight w = Fin H \<longrightarrow>
        resolveAnimationTarget (Url u) None w
          = CustomAnimationTarget (Fin (W / 2)) (Fin (H / 2)) (Fin 10) (Fin 10))
   \<and> (controls w = Some False \<longrightarrow>
        (\<exists>w'. controller_openView (Url u) None w = Inr w'
           \<and> animationTarget w'
               = Some (CustomAnimationTarget (js_div (innerWidth w) (Fin 2))
                        (js_div (innerHeight w) (Fin 2)) (Fin 10) (Fin 10))))
   \<and> target_x doc (resolveAnimationTarget (Url u) None w) = js_div (innerWidth w) (Fin 2)
   \<and> target_y doc (resolveAnimationTarget (Url u) None w) = js_div (innerHeight w) (Fin 2)
   \<and> target_width doc (resolveAnimationTarget (Url u) None w) = Fin 10
   \<and> target_height doc (resolveAnimationTarget (Url u) None w) = Fin 10"
  by (simp add: resolveAnimationTarget_def isElement_def Let_def controller_openView_def openView_def update_def
      setTimeout_def)

theorem C7_fallback_target_witness:
  "resolveAnimationTarget (Url ''a.jpg'') None (mount (Fin 1000) (Fin 1000))
     = CustomAnimationTarget (Fin 500) (Fin 500) (Fin 10) (Fin 10)
   \<and> (\<exists>w'. controller_openView (Url ''a.jpg'') None (mount (Fin 1000) (Fin 1000)) = Inr w'
         \<and> animationTarget w' = Some (CustomAnimationTarget (Fin 500) (Fin 500) (Fin 10) (Fin 10)))"
  using C7_fallback_target [of "''a.jpg''" "mount (Fin 1000) (Fin 1000)" 1000 1000]
  by (simp add: mount_def initialWorld_def setControls_def animating_def js_or_def)

section \<open>Properties of the state machine\<close>

subsection \<open>What the guard does, and when it is read\<close>

text \<open>
  A handler whose captured \<open>animating\<close> is true returns at once; the image's \<^verbatim>\<open>onClick\<close>
  is such a handler whenever a transition is in progress.
\<close>

lemma openView_rejects: "openView True src t w = w"
  by (simp add: openView_def)

lemma closeView_rejects: "closeView True w = w"
  by (simp add: closeView_def)

lemma ImgClick_while_animating: "animating w \<Longrightarrow> step ImgClick w = Inr w"
  by (simp add: closeView_def)

text \<open>
  A handler that reads the current state's \<open>animating\<close> never makes \<open>opening\<close> and
  \<open>closing\<close> true together.
\<close>

lemma fresh_guard_keeps_exclusive:
  assumes "\<not> (opening w \<and> closing w)"
  shows "\<not> (opening (openView (animating w) src t w) \<and> closing (openView (animating w) src t w))"
    and "\<not> (opening (closeView (animating w) w) \<and> closing (closeView (animating w) w))"
  using assms
  by (auto simp: openView_def closeView_def update_def setTimeout_def animating_def)

text \<open>
  The handlers the controller holds are those of the first render, and stay so: no
  event rebinds them. Their \<open>animating\<close> is false, so through the controller the guard
  never rejects a call.
\<close>

lemma mount_controls: "controls (mount W H) = Some False"
  by (simp add: mount_def setControls_def initialWorld_def animating_def)

lemma runCallback_frame:
  "controls (runCallback cb w) = controls w"
  "animationTarget (runCallback cb w) = animationTarget w"
  "source (runCallback cb w) = source w"
  "bodyWidth (runCallback cb w) = bodyWidth w"
  "bodyHeight (runCallback cb w) = bodyHeight w"
  by (cases cb; simp)+

lemma runCallback_opening: "opening (runCallback cb w) \<Longrightarrow> opening w"
  by (cases cb) simp_all

lemma runTimer_cases:
  "runTimer w = w \<or> (\<exists>cb rest. runTimer w = runCallback cb (w\<lparr>timers := rest\<rparr>))"
proof (cases "timers w")
  case Nil
  then show ?thesis by (simp add: runTimer_def)
next
  case (Cons t rest)
  obtain due cb where t: "t = (due, cb)" by (cases t)
  show ?thesis
  proof (cases "due \<le> now w")
    case True
    with Cons t have "runTimer w = runCallback cb (w\<lparr>timers := rest\<rparr>)"
      by (simp add: runTimer_def)
    then show ?thesis by blast
  next
    case False
    with Cons t show ?thesis by (simp add: runTimer_def)
  qed
qed

lemma runTimer_frame:
  "controls (runTimer w) = controls w"
  "animationTarget (runTimer w) = animationTarget w"
  "source (runTimer w) = source w"
  "bodyWidth (runTimer w) = bodyWidth w"
  "bodyHeight (runTimer w) = bodyHeight w"
  using runTimer_cases [of w] by (auto simp: runCallback_frame)

lemma runTimer_opening: "opening (runTimer w) \<Longrightarrow> opening w"
  using runTimer_cases [of w] by (auto dest!: runCallback_opening)

lemma openView_controls: "controls (openView a src t w) = controls w"
  by (simp add: openView_def update_def setTimeout_def)

lemma closeView_controls: "controls (closeView a w) = controls w"
  by (simp add: closeView_def update_def setTimeout_def)

lemma step_controls: "step e w = Inr w' \<Longrightarrow> controls w' = controls w"
  by (cases e)
    (auto simp: controller_openView_def openViewFromElement_def controller_closeView_def
      openView_controls closeView_controls runTimer_frame split: option.splits)

lemma run_controls: "run es w = Inr w' \<Longrightarrow> controls w' = controls w"
proof (induction es arbitrary: w)
  case Nil
  then show ?case by simp
next
  case (Cons e es)
  then show ?case
    by (auto split: sum.splits dest: step_controls)
qed

lemma controller_guard_never_rejects:
  assumes "run es (mount W H) = Inr w"
  shows "controller_openView src t w
           = Inr (openView False (ImageSourceResolver src) (resolveAnimationTarget src t w) w)"
    and "controller_closeView animateTo w = Inr (closeView False w)"
  using run_controls [OF assms]
  by (simp_all add: controller_openView_def controller_closeView_def mount_controls)

lemma openWorld_reached:
  "run [ControllerOpenView (Url ''a.jpg'') (Some thumbnail), RunTimer, Tick 2000, RunTimer]
     (mount (Fin 1000) (Fin 1000)) = Inr openWorld"
  by (simp add: mount_def initialWorld_def setControls_def animating_def js_or_def
      controller_openView_def resolveAnimationTarget_def isElement_def Let_def openView_def update_def
      setTimeout_def runTimer_def duration_def openWorld_def)

text \<open>
  Claim C3, on the code. After \<^verbatim>\<open>controller.openView('a.jpg', thumbnail)\<close> the viewer is
  opening. A second \<^verbatim>\<open>controller.openView('b.jpg')\<close> made at once is not ignored: it
  replaces the source and the target and schedules two more timers. A
  \<^verbatim>\<open>controller._closeView()\<close> made 500 ms into the opening is not ignored either: it sets
  \<open>closing\<close> and \<open>updating\<close> while \<open>opening\<close> is still true.
\<close>

theorem C3_concurrent_call_not_ignored:
  "run [ControllerOpenView (Url ''a.jpg'') (Some thumbnail)] (mount (Fin 1000) (Fin 1000))
     = Inr \<lparr> visible = True, opening = True, closing = False, updating = True,
             animationTarget = Some thumbnail,
             source = Some (ImageSourceResolver (Url ''a.jpg'')),
             bodyWidth = Fin 1000, bodyHeight = Fin 1000,
             innerWidth = Fin 1000, innerHeight = Fin 1000, now = 0,
             timers = [(0, UpdateDone), (2000, OpeningDone)], controls = Some False \<rparr>
   \<and> run [ControllerOpenView (Url ''a.jpg'') (Some thumbnail),
           ControllerOpenView (Url ''b.jpg'') None] (mount (Fin 1000) (Fin 1000))
     = Inr \<lparr> visible = True, opening = True, closing = False, updating = True,
             animationTarget =
               Some (CustomAnimationTarget (Fin 500) (Fin 500) (Fin 10) (Fin 10)),
             source = Some (ImageSourceResolver (Url ''b.jpg'')),
             bodyWidth = Fin 1000, bodyHeight = Fin 1000,
             innerWidth = Fin 1000, innerHeight = Fin 1000, now = 0,
             timers = [(0, UpdateDone), (0, UpdateDone), (2000, OpeningDone), (2000, OpeningDone)],
             controls = Some False \<rparr>
   \<and> run [ControllerOpenView (Url ''a.jpg'') (Some thumbnail), RunTimer, Tick 500,
           ControllerCloseView None] (mount (Fin 1000) (Fin 1000))
     = Inr \<lparr> visible = True, opening = True, closing = True, updating = True,
             animationTarget = Some thumbnail,
             source = Some (ImageSourceResolver (Url ''a.jpg'')),
             bodyWidth = Fin 1000, bodyHeight = Fin 1000,
             innerWidth = Fin 1000, innerHeight = Fin 1000, now = 500,
             timers = [(500, UpdateDone), (2000, OpeningDone), (2500, ClosingDone)],
             controls = Some False \<rparr>"
  by (simp add: mount_def initialWorld_def setControls_def animating_def js_or_def
      controller_openView_def controller_closeView_def resolveAnimationTarget_def isElement_def Let_def
      openView_def closeView_def update_def setTimeout_def runTimer_def duration_def)

text \<open>
  Claim C9, on the code. The viewer is opened through the controller, both timers run,
  the user clicks the image (a close that the guard accepts), the update timer runs,
  and 500 ms into the closing the host calls \<^verbatim>\<open>controller.openView\<close> again: in the state
  reached, \<open>opening\<close> and \<open>closing\<close> are both true.
\<close>

theorem C9_opening_and_closing_together:
  "run [ControllerOpenView (Url ''a.jpg'') (Some thumbnail), RunTimer, Tick 2000, RunTimer,
        ImgClick, RunTimer, Tick 500,
        ControllerOpenView (Url ''a.jpg'') (Some thumbnail)] (mount (Fin 1000) (Fin 1000))
     = Inr \<lparr> visible = True, opening = True, closing = True, updating = True,
             animationTarget = Some thumbnail,
             source = Some (ImageSourceResolver (Url ''a.jpg'')),
             bodyWidth = Fin 1000, bodyHeight = Fin 1000,
             innerWidth = Fin 1000, innerHeight = Fin 1000, now = 2500,
             timers = [(2500, UpdateDone), (4000, ClosingDone), (4500, OpeningDone)],
             controls = Some False \<rparr>"
  by (simp add: mount_def initialWorld_def setControls_def animating_def js_or_def
      controller_openView_def resolveAnimationTarget_def isElement_def Let_def
      openView_def closeView_def update_def setTimeout_def runTimer_def duration_def)

text \<open>
  Claim C5, on the code. The viewer is opened through the controller and the update
  timer runs. At 2000 ms, when the \<open>OpeningDone\<close> timer of that call is due but has not
  run yet, the host calls \<^verbatim>\<open>controller.openView\<close> again; the stale guard accepts the call,
  which sets \<open>updating\<close>. The \<open>OpeningDone\<close> timer of the first call then clears \<open>opening\<close>.
  In the state reached \<open>updating\<close> holds without \<open>opening\<close> or \<open>closing\<close>: the container's
  left and top are the target's and its paddings are 0, but its width and height are
  \<^verbatim>\<open>'100%'\<close>, not the target's 50 by 50.
\<close>

theorem C5_box_not_pinned_while_updating:
  "run [ControllerOpenView (Url ''a.jpg'') (Some thumbnail), RunTimer, Tick 2000,
        ControllerOpenView (Url ''a.jpg'') (Some thumbnail), RunTimer]
     (mount (Fin 1000) (Fin 1000))
     = Inr \<lparr> visible = True, opening = False, closing = False, updating = True,
             animationTarget = Some thumbnail,
             source = Some (ImageSourceResolver (Url ''a.jpg'')),
             bodyWidth = Fin 1000, bodyHeight = Fin 1000,
             innerWidth = Fin 1000, innerHeight = Fin 1000, now = 2000,
             timers = [(2000, UpdateDone), (4000, OpeningDone)], controls = Some False \<rparr>
   \<and> style exampleDocument None
        \<lparr> visible = True, opening = False, closing = False, updating = True,
          animationTarget = Some thumbnail,
          source = Some (ImageSourceResolver (Url ''a.jpg'')),
          bodyWidth = Fin 1000, bodyHeight = Fin 1000,
          innerWidth = Fin 1000, innerHeight = Fin 1000, now = 2000,
          timers = [(2000, UpdateDone), (4000, OpeningDone)], controls = Some False \<rparr>
     = \<lparr> width = Percent100, height = Percent100, left = Fin 100, top' = Fin 100,
         position = ''fixed'', display = Flex, transition = None, overflow = ''hidden'',
         alignItems = None, paddingLeft = CssNumber (Fin 0), paddingRight = CssNumber (Fin 0) \<rparr>"
  by (simp add: mount_def initialWorld_def setControls_def animating_def js_or_def
      controller_openView_def resolveAnimationTarget_def isElement_def Let_def
      openView_def closeView_def update_def setTimeout_def runTimer_def duration_def
      style_def box_left_def box_top_def orZero_def thumbnail_def
      imageAspectRatio_def screenAspectRatio_def)

subsection \<open>What a close leaves alone\<close>

lemma timer_step_frame:
  assumes "timerEvent e"
  shows "\<exists>w'. step e w = Inr w'
           \<and> animationTarget w' = animationTarget w \<and> source w' = source w
           \<and> bodyWidth w' = bodyWidth w \<and> bodyHeight w' = bodyHeight w
           \<and> (opening w' \<longrightarrow> opening w)"
  using assms by (cases e) (auto simp: runTimer_frame dest: runTimer_opening)

lemma timer_run_frame:
  assumes "list_all timerEvent es"
  shows "\<exists>w'. run es w = Inr w'
           \<and> animationTarget w' = animationTarget w \<and> source w' = source w
           \<and> bodyWidth w' = bodyWidth w \<and> bodyHeight w' = bodyHeight w
           \<and> (opening w' \<longrightarrow> opening w)"
  using assms
proof (induction es arbitrary: w)
  case Nil
  then show ?case by simp
next
  case (Cons e es)
  from Cons.prems have e: "timerEvent e" and es: "list_all timerEvent es" by simp_all
  from timer_step_frame [OF e, of w] obtain w1 where
    w1: "step e w = Inr w1" "animationTarget w1 = animationTarget w" "source w1 = source w"
      "bodyWidth w1 = bodyWidth w" "bodyHeight w1 = bodyHeight w" "opening w1 \<longrightarrow> opening w"
    by blast
  from Cons.IH [OF es, of w1] obtain w' where
    w': "run es w1 = Inr w'" "animationTarget w' = animationTarget w1" "source w' = source w1"
      "bodyWidth w' = bodyWidth w1" "bodyHeight w' = bodyHeight w1" "opening w' \<longrightarrow> opening w1"
    by blast
  from w1 w' show ?case by simp
qed

lemma closeView_frame:
  "animationTarget (closeView a w) = animationTarget w"
  "source (closeView a w) = source w"
  "bodyWidth (closeView a w) = bodyWidth w"
  "bodyHeight (closeView a w) = bodyHeight w"
  "opening (closeView a w) = opening w"
  "visible (closeView a w) = visible w"
  by (simp_all add: closeView_def update_def setTimeout_def)

lemma close_frame_run:
  assumes "\<not> animating w" and "list_all timerEvent es"
  shows "\<exists>w'. run es (closeView False w) = Inr w'
           \<and> animationTarget w' = animationTarget w \<and> source w' = source w
           \<and> opening w' = opening w
           \<and> bodyWidth w' = bodyWidth w \<and> bodyHeight w' = bodyHeight w"
proof -
  from timer_run_frame [OF assms(2), of "closeView False w"] obtain w' where
    w': "run es (closeView False w) = Inr w'"
      "animationTarget w' = animationTarget (closeView False w)"
      "source w' = source (closeView False w)"
      "bodyWidth w' = bodyWidth (closeView False w)"
      "bodyHeight w' = bodyHeight (closeView False w)"
      "opening w' \<longrightarrow> opening (closeView False w)"
    by blast
  from assms(1) have "\<not> opening w" by (simp add: animating_def)
  with w' show ?thesis by (auto simp: closeView_frame)
qed

lemma close_at_once:
  assumes "\<not> animating w"
  shows "closing (closeView False w) \<and> updating (closeView False w)
         \<and> visible (closeView False w) = visible w"
  by (simp add: closeView_def update_def setTimeout_def)

lemma close_before_duration:
  assumes "visible w" "\<not> animating w" "\<not> updating w" "timers w = []" "d < duration"
  shows "\<exists>w2. run [RunTimer, Tick d, RunTimer] (closeView False w) = Inr w2
           \<and> visible w2 \<and> closing w2 \<and> \<not> updating w2"
  using assms
  by (simp add: closeView_def update_def setTimeout_def runTimer_def animating_def)

lemma close_after_duration:
  assumes "visible w" "\<not> animating w" "\<not> updating w" "timers w = []" "duration \<le> d"
  shows "\<exists>w3. run [RunTimer, Tick d, RunTimer] (closeView False w) = Inr w3
           \<and> \<not> visible w3 \<and> \<not> closing w3 \<and> \<not> updating w3"
  using assms
  by (simp add: closeView_def update_def setTimeout_def runTimer_def animating_def)

text \<open>
  Claim C10. \<^verbatim>\<open>closeView\<close> drops the \<open>animateTo\<close> rectangle it is called with. A close that
  the guard accepts sets \<open>closing\<close> and \<open>updating\<close> and nothing else; whatever the clock
  and the timers do afterwards, \<open>animationTarget\<close>, \<open>source\<close>, \<open>opening\<close> and the viewport
  size stay as they were before the close. From the steady open state the update timer
  clears \<open>updating\<close>; the viewer then stays visible and closing until \<open>duration\<close> has
  elapsed, after which \<open>closing\<close> and \<open>visible\<close> are false.
\<close>

theorem C10_close_frame:
  "controller_closeView a w = controller_closeView b w
   \<and> (\<not> animating w \<longrightarrow>
        closing (closeView False w) \<and> updating (closeView False w)
        \<and> visible (closeView False w) = visible w
        \<and> opening (closeView False w) = opening w
        \<and> animationTarget (closeView False w) = animationTarget w
        \<and> source (closeView False w) = source w
        \<and> bodyWidth (closeView False w) = bodyWidth w
        \<and> bodyHeight (closeView False w) = bodyHeight w)
   \<and> (\<not> animating w \<longrightarrow> list_all timerEvent es \<longrightarrow>
        (\<exists>w'. run es (closeView False w) = Inr w'
           \<and> animationTarget w' = animationTarget w \<and> source w' = source w
           \<and> opening w' = opening w
           \<and> bodyWidth w' = bodyWidth w \<and> bodyHeight w' = bodyHeight w))
   \<and> (visible w \<and> \<not> animating w \<and> \<not> updating w \<and> timers w = [] \<longrightarrow> d < duration \<longrightarrow>
        (\<exists>w2. run [RunTimer, Tick d, RunTimer] (closeView False w) = Inr w2
           \<and> visible w2 \<and> closing w2 \<and> \<not> updating w2))
   \<and> (visible w \<and> \<not> animating w \<and> \<not> updating w \<and> timers w = [] \<longrightarrow> duration \<le> d \<longrightarrow>
        (\<exists>w3. run [RunTimer, Tick d, RunTimer] (closeView False w) = Inr w3
           \<and> \<not> visible w3 \<and> \<not> closing w3 \<and> \<not> updating w3))"
proof -
  have p1: "controller_closeView a w = controller_closeView b w"
    by (simp add: controller_closeView_def)
  have p2: "\<not> animating w \<longrightarrow>
        closing (closeView False w) \<and> updating (closeView False w)
        \<and> visible (closeView False w) = visible w
        \<and> opening (closeView False w) = opening w
        \<and> animationTarget (closeView False w) = animationTarget w
        \<and> source (closeView False w) = source w
        \<and> bodyWidth (closeView False w) = bodyWidth w
        \<and> bodyHeight (closeView False w) = bodyHeight w"
    using close_at_once [of w] by (simp add: closeView_frame)
  have p3: "\<not> animating w \<longrightarrow> list_all timerEvent es \<longrightarrow>
        (\<exists>w'. run es (closeView False w) = Inr w'
           \<and> animationTarget w' = animationTarget w \<and> source w' = source w
           \<and> opening w' = opening w
           \<and> bodyWidth w' = bodyWidth w \<and> bodyHeight w' = bodyHeight w)"
    using close_frame_run [of w es] by blast
  have p4: "visible w \<and> \<not> animating w \<and> \<not> updating w \<and> timers w = [] \<longrightarrow> d < duration \<longrightarrow>
        (\<exists>w2. run [RunTimer, Tick d, RunTimer] (closeView False w) = Inr w2
           \<and> visible w2 \<and> closing w2 \<and> \<not> updating w2)"
    using close_before_duration [of w d] by blast
  have p5: "visible w \<and> \<not> animating w \<and> \<not> updating w \<and> timers w = [] \<longrightarrow> duration \<le> d \<longrightarrow>
        (\<exists>w3. run [RunTimer, Tick d, RunTimer] (closeView False w) = Inr w3
           \<and> \<not> visible w3 \<and> \<not> closing w3 \<and> \<not> updating w3)"
    using close_after_duration [of w d] by blast
  from p1 p2 p3 p4 p5 show ?thesis by blast
qed

theorem C10_close_frame_witness:
  "controller_closeView None openWorld = controller_closeView (Some thumbnail) openWorld
   \<and> closing (closeView False openWorld) \<and> updating (closeView False openWorld)
   \<and> animationTarget (closeView False openWorld) = Some thumbnail
   \<and> (\<exists>w'. run [RunTimer, Tick 2000, RunTimer] (closeView False openWorld) = Inr w'
         \<and> animationTarget w' = Some thumbnail
         \<and> source w' = Some (ImageSourceResolver (Url ''a.jpg'')))
   \<and> (\<exists>w3. run [RunTimer, Tick 2000, RunTimer] (closeView False openWorld) = Inr w3
         \<and> \<not> visible w3 \<and> \<not> closing w3 \<and> \<not> updating w3)"
proof -
  have steady: "visible openWorld \<and> \<not> animating openWorld \<and> \<not> updating openWorld
      \<and> timers openWorld = []"
    by (simp add: openWorld_def animating_def)
  have ev: "list_all timerEvent [RunTimer, Tick 2000, RunTimer]" by simp
  have d: "duration \<le> 2000" by (simp add: duration_def)
  from C10_close_frame [of None openWorld "Some thumbnail" "[RunTimer, Tick 2000, RunTimer]" 2000]
    steady ev d
  have "controller_closeView None openWorld = controller_closeView (Some thumbnail) openWorld"
    and "closing (closeView False openWorld) \<and> updating (closeView False openWorld)
      \<and> animationTarget (closeView False openWorld) = animationTarget openWorld"
    and "\<exists>w'. run [RunTimer, Tick 2000, RunTimer] (closeView False openWorld) = Inr w'
         \<and> animationTarget w' = animationTarget openWorld \<and> source w' = source openWorld"
    and "\<exists>w3. run [RunTimer, Tick 2000, RunTimer] (closeView False openWorld) = Inr w3
         \<and> \<not> visible w3 \<and> \<not> closing w3 \<and> \<not> updating w3"
    by blast+
  then show ?thesis by (simp add: openWorld_def)
qed

end
